theory Spec2Isabelle
  imports Complex_Main "HOL-Library.Sublist" "HOL-Library.Word"
begin

text \<open>
  A model of the API client of the MemoryRelay MCP server (src/client.ts) and of the part of
  its tool layer that creates entities (src/server.ts): the secret redactor \<open>maskApiKey\<close>, the
  retry policy \<open>withRetry\<close>, the request executor \<open>request\<close>, the resource operations built
  on it, and \<open>sanitizeHtml\<close> with the \<open>entity_create\<close> handler. Asynchronous functions are
  functions on an explicit state of the world; a thrown error is the \<open>Inl\<close> of a sum.
\<close>

section \<open>JavaScript strings\<close>

text \<open>
  A JavaScript string is a sequence of UTF-16 code units; \<open>length\<close>, \<open>substring\<close>,
  \<open>includes\<close> and \<open>replace\<close> all work on code units. The ASCII literals of the source
  are embedded with \<open>lit\<close>.
\<close>

type_synonym code_unit = "16 word"
type_synonym jsstring = "code_unit list"

definition cu :: "char \<Rightarrow> code_unit" where
  "cu c = of_nat (of_char c)"

definition lit :: "string \<Rightarrow> jsstring" where
  "lit s = map cu s"

text \<open>\<open>String.prototype.includes\<close>: some position of the text starts with the pattern.\<close>

fun str_includes :: "'a list \<Rightarrow> 'a list \<Rightarrow> bool" where
  "str_includes [] p = (p = [])"
| "str_includes (c # cs) p = (prefix p (c # cs) \<or> str_includes cs p)"

text \<open>
  The rendering of a non-negative integer by a template literal (\<open>`${n}`\<close>): its decimal
  digits, most significant first.
\<close>

definition digit :: "nat \<Rightarrow> code_unit" where
  "digit d = cu (''0123456789'' ! d)"

fun decimal :: "nat \<Rightarrow> jsstring" where
  "decimal n = (if n < 10 then [digit n] else decimal (n div 10) @ [digit (n mod 10)])"

declare decimal.simps [simp del]

section \<open>Secret redaction (client.ts, maskApiKey)\<close>

text \<open>
  \<open>maskApiKey\<close> builds \<open>new RegExp(apiKey, 'g')\<close>: the key is read as a regular expression.
  The characters below are ECMAScript's SyntaxCharacter; a pattern without any of them is a
  sequence of PatternCharacters and matches exactly itself, code unit by code unit (the
  flags are \<open>g\<close> only: case-sensitive, no Unicode mode).
\<close>

definition SyntaxCharacter :: "code_unit list" where
  "SyntaxCharacter = map cu [CHR ''^'', CHR ''$'', CHR 0x5C, CHR ''.'', CHR ''*'', CHR ''+'',
     CHR ''?'', CHR ''('', CHR '')'', CHR ''['', CHR '']'', CHR ''{'', CHR ''}'', CHR ''|'']"

definition literal_pattern :: "jsstring \<Rightarrow> bool" where
  "literal_pattern p = list_all (\<lambda>c. c \<notin> set SyntaxCharacter) p"

text \<open>
  \<open>text.replace(re, r)\<close> for a global regular expression that matches exactly the non-empty
  string \<open>p\<close>, and a replacement \<open>r\<close> without \<open>$\<close>: the text is scanned from the left, every
  match is replaced and the scan resumes after the match (matches never overlap).
\<close>

fun replace_all :: "'a list \<Rightarrow> 'a list \<Rightarrow> 'a list \<Rightarrow> 'a list" where
  "replace_all p r [] = []"
| "replace_all p r (c # cs) =
     (if p \<noteq> [] \<and> prefix p (c # cs)
      then r @ replace_all p r (drop (length p) (c # cs))
      else c # replace_all p r cs)"

text \<open>
  An \<open>Error\<close> object: the code reads its \<open>name\<close> and its \<open>message\<close>.
\<close>

datatype js_error = JsError (name: jsstring) (message: jsstring)

definition new_Error :: "jsstring \<Rightarrow> js_error" where
  "new_Error msg = JsError (lit ''Error'') msg"

text \<open>
  The regular-expression engine of the platform is not part of the repository. Where the
  pattern has a syntax character, or the replacement a \<open>$\<close>, the outcome of
  \<open>text.replace(new RegExp(pattern, 'g'), replacement)\<close> (a string, or the \<open>SyntaxError\<close> of
  the constructor) is left to a parameter \<open>rx pattern replacement text\<close>.
\<close>

type_synonym regexp_engine = "jsstring \<Rightarrow> jsstring \<Rightarrow> jsstring \<Rightarrow> js_error + jsstring"

definition regexp_replace_g ::
  "regexp_engine \<Rightarrow> jsstring \<Rightarrow> jsstring \<Rightarrow> jsstring \<Rightarrow> js_error + jsstring" where
  "regexp_replace_g rx pattern replacement text =
     (if pattern \<noteq> [] \<and> literal_pattern pattern \<and> cu CHR ''$'' \<notin> set replacement
      then Inr (replace_all pattern replacement text)
      else rx pattern replacement text)"

definition maskApiKey :: "regexp_engine \<Rightarrow> jsstring \<Rightarrow> jsstring \<Rightarrow> js_error + jsstring" where
  "maskApiKey rx msg apiKey =
     (if apiKey = [] then Inr msg
      else let maskedKey = take 8 apiKey @ lit ''***''
           in regexp_replace_g rx apiKey maskedKey msg)"

text \<open>An engine for closed examples whose keys are literal patterns: it is never consulted there.\<close>

definition rejecting_engine :: regexp_engine where
  "rejecting_engine pattern replacement text = Inl (JsError (lit ''SyntaxError'') pattern)"

section \<open>Numbers of the platform\<close>

text \<open>
  The numbers the client computes with are integers or \<open>NaN\<close>: the result of \<open>parseInt\<close>,
  multiplied by 1000. They are modelled as exact integers, and \<open>render\<close> prints plain
  decimal digits. The source's numbers are IEEE-754 doubles: they agree with the model up to
  \<open>2^53\<close>; above it \<open>parseInt\<close> rounds to the nearest double, and from \<open>10^21\<close> a template
  literal prints exponent form. Nothing below is stated about header values that large.
\<close>

datatype js_number = NaN | Num int

definition js_times :: "js_number \<Rightarrow> int \<Rightarrow> js_number" where
  "js_times x k = (case x of NaN \<Rightarrow> NaN | Num i \<Rightarrow> Num (i * k))"

definition render :: "js_number \<Rightarrow> jsstring" where
  "render x = (case x of NaN \<Rightarrow> lit ''NaN''
     | Num i \<Rightarrow> if i < 0 then lit ''-'' @ decimal (nat (- i)) else decimal (nat i))"

text \<open>
  \<open>parseInt(s)\<close> with no radix: leading white space is skipped, then an optional sign, then
  \<open>0x\<close> or \<open>0X\<close> selects radix 16; the longest run of digits of the radix is read, and
  no digit at all gives \<open>NaN\<close>.
\<close>

definition StrWhiteSpaceChar :: "code_unit \<Rightarrow> bool" where
  "StrWhiteSpaceChar c =
     (c \<in> set [0x9, 0xA, 0xB, 0xC, 0xD, 0x20, 0xA0, 0x1680, 0x2028, 0x2029, 0x202F, 0x205F,
               0x3000, 0xFEFF] \<or> (0x2000 \<le> c \<and> c \<le> 0x200A))"

definition digit_value :: "nat \<Rightarrow> code_unit \<Rightarrow> nat option" where
  "digit_value R c =
     (let n = unat c;
          v = (if 48 \<le> n \<and> n \<le> 57 then Some (n - 48)
               else if 97 \<le> n \<and> n \<le> 122 then Some (n - 87)
               else if 65 \<le> n \<and> n \<le> 90 then Some (n - 55)
               else None)
      in case v of None \<Rightarrow> None | Some d \<Rightarrow> if d < R then Some d else None)"

definition digits_value :: "nat \<Rightarrow> jsstring \<Rightarrow> nat" where
  "digits_value R Z =
     foldl (\<lambda>a c. a * R + (case digit_value R c of None \<Rightarrow> 0 | Some d \<Rightarrow> d)) 0 Z"

definition parseInt :: "jsstring \<Rightarrow> js_number" where
  "parseInt s =
     (let S = dropWhile StrWhiteSpaceChar s;
          neg = prefix (lit ''-'') S;
          S1 = (if prefix (lit ''-'') S \<or> prefix (lit ''+'') S then drop 1 S else S);
          hex = (prefix (lit ''0x'') S1 \<or> prefix (lit ''0X'') S1);
          R = (if hex then 16 else 10);
          S2 = (if hex then drop 2 S1 else S1);
          Z = takeWhile (\<lambda>c. digit_value R c \<noteq> None) S2
      in if Z = [] then NaN
         else Num ((if neg then - 1 else 1) * int (digits_value R Z)))"

section \<open>The retry policy (client.ts, withRetry)\<close>

text \<open>The constants at the head of client.ts.\<close>

definition MAX_RETRIES :: nat where
  "MAX_RETRIES = 3"

definition INITIAL_DELAY_MS :: nat where
  "INITIAL_DELAY_MS = 1000"

definition MAX_CONTENT_SIZE :: nat where
  "MAX_CONTENT_SIZE = 50 * 1024"

text \<open>The test of the \<open>catch\<close> block of \<open>withRetry\<close>: the four \<open>includes\<close>, in its order.\<close>

definition non_retryable :: "jsstring \<Rightarrow> bool" where
  "non_retryable msg =
     (str_includes msg (lit ''401'') \<or> str_includes msg (lit ''403'')
      \<or> str_includes msg (lit ''404'') \<or> str_includes msg (lit ''400''))"

text \<open>
  The wrapped operation \<open>fn\<close> is an effectful action: it takes the state of the world and
  returns its result, a thrown \<open>Error\<close> (\<open>Inl\<close>) or a value, with the new state. What it throws
  is an \<open>Error\<close> object, so \<open>lastError\<close> is the thrown error itself. \<open>sleep d\<close> is
  the effect of waiting after a failed attempt; \<open>d\<close> is the delay
  \<open>INITIAL_DELAY_MS * 2^attempt\<close>, to which the source adds a random jitter of less than
  \<open>0.3 * d\<close> that the model leaves open. The loop is the source's \<open>for\<close> loop with its
  variables \<open>attempt\<close> and \<open>lastError\<close>; the throw after the loop is its last line.
\<close>

function withRetry_loop ::
  "(nat \<Rightarrow> 's \<Rightarrow> 's) \<Rightarrow> ('s \<Rightarrow> (js_error + 'a) \<times> 's) \<Rightarrow> nat \<Rightarrow> nat \<Rightarrow> js_error option \<Rightarrow> 's
     \<Rightarrow> (js_error + 'a) \<times> 's" where
  "withRetry_loop sleep fn retries attempt lastError s =
     (if attempt \<le> retries then
        (case fn s of
           (Inr v, s') \<Rightarrow> (Inr v, s')
         | (Inl e, s') \<Rightarrow>
             if non_retryable (message e) then (Inl e, s')
             else if attempt = retries then (Inl e, s')
             else withRetry_loop sleep fn retries (attempt + 1) (Some e)
                    (sleep (INITIAL_DELAY_MS * 2 ^ attempt) s'))
      else (Inl (case lastError of Some e \<Rightarrow> e | None \<Rightarrow> new_Error (lit ''Retry failed'')), s))"
  by pat_completeness auto
termination
  by (relation "measure (\<lambda>(sleep, fn, retries, attempt, lastError, s). Suc retries - attempt)") auto

declare withRetry_loop.simps [simp del]

definition withRetry ::
  "(nat \<Rightarrow> 's \<Rightarrow> 's) \<Rightarrow> ('s \<Rightarrow> (js_error + 'a) \<times> 's) \<Rightarrow> nat \<Rightarrow> 's \<Rightarrow> (js_error + 'a) \<times> 's" where
  "withRetry sleep fn retries s = withRetry_loop sleep fn retries 0 None s"

text \<open>
  A counter of invocations, for the claims that count them: \<open>counted fn\<close> is \<open>fn\<close> on a state
  paired with the number of calls made so far.
\<close>

definition counted :: "('s \<Rightarrow> 'r \<times> 's) \<Rightarrow> nat \<times> 's \<Rightarrow> 'r \<times> (nat \<times> 's)" where
  "counted fn = (\<lambda>(n, s). case fn s of (r, s') \<Rightarrow> (r, (Suc n, s')))"

definition counted_sleep :: "(nat \<Rightarrow> 's \<Rightarrow> 's) \<Rightarrow> nat \<Rightarrow> nat \<times> 's \<Rightarrow> nat \<times> 's" where
  "counted_sleep sleep d = (\<lambda>(n, s). (n, sleep d s))"

section \<open>The request executor (client.ts, MemoryRelayClient.request)\<close>

text \<open>\<open>ClientConfig\<close> (types.ts); the timeout is a whole number of milliseconds.\<close>

record config =
  apiKey :: jsstring
  apiUrl :: jsstring
  agentId :: jsstring
  timeout :: nat

text \<open>The JSON bodies the client sends; \<open>metadata\<close> is an optional string-to-string record.\<close>

type_synonym metadata = "(jsstring \<times> jsstring) list option"

datatype request_body =
    StoreMemoryBody (content: jsstring) metadata (agent_id: jsstring)
  | SearchBody (query: jsstring) real real (agent_id: jsstring)
  | UpdateMemoryBody (content: jsstring) metadata
  | CreateEntityBody (entity_name: jsstring) (entity_type: jsstring) metadata

text \<open>One call of \<open>fetch\<close>: the URL, the method, the \<open>Authorization\<close> header and the body.\<close>

record fetch_call =
  url :: jsstring
  http_method :: jsstring
  authorization :: jsstring
  body :: "request_body option"

text \<open>
  What \<open>fetch\<close> gives back. A response is read through \<open>ok\<close>, \<open>status\<close>, \<open>statusText\<close>,
  \<open>headers.get('Retry-After')\<close> and \<open>json()\<close>. \<open>json()\<close> rejects, or resolves to a value; of a
  value the error path reads \<open>errorData.message\<close>, which raises (the value is \<open>null\<close>), is
  missing or falsy, or is truthy and renders as a string.
\<close>

datatype message_read = Raises js_error | Absent | Present jsstring

datatype 'a json_outcome = JsonRejects js_error | JsonValue message_read 'a

record 'a response =
  ok :: bool
  status :: nat
  statusText :: jsstring
  retry_after :: "jsstring option"
  json :: "'a json_outcome"

datatype 'a fetch_outcome = Rejected js_error | Resolved "'a response"

text \<open>
  The platform the client runs on: \<open>fetch\<close>, answering the calls made so far (the last one is
  the current call); the regular-expression engine; and the read of the property \<open>data\<close> of a
  parsed value. \<open>fetch\<close> and \<open>json()\<close> reject with \<open>Error\<close> objects only, as the platform's do.
\<close>

record 'a platform =
  fetch :: "fetch_call list \<Rightarrow> 'a fetch_outcome"
  regexp :: regexp_engine
  read_data :: "'a \<Rightarrow> js_error + 'a"

text \<open>
  The state of the world: the calls of \<open>fetch\<close> made and the waits taken, oldest first. The
  logger's lines are not modelled.
\<close>

datatype pause = Backoff nat | RateLimitWait js_number

record world =
  fetched :: "fetch_call list"
  pauses :: "pause list"

definition backoff :: "nat \<Rightarrow> world \<Rightarrow> world" where
  "backoff d w = w\<lparr>pauses := pauses w @ [Backoff d]\<rparr>"

text \<open>The body of the \<open>try\<close> block of one attempt.\<close>

definition try_block ::
  "'a platform \<Rightarrow> config \<Rightarrow> fetch_call \<Rightarrow> world \<Rightarrow> (js_error + 'a) \<times> world" where
  "try_block pf cfg call w =
     (let w1 = w\<lparr>fetched := fetched w @ [call]\<rparr> in
      case fetch pf (fetched w1) of
        Rejected e \<Rightarrow> (Inl e, w1)
      | Resolved r \<Rightarrow>
          if \<not> ok r then
            if status r = 429 then
              let waitMs = (case retry_after r of
                              None \<Rightarrow> Num 5000
                            | Some h \<Rightarrow> if h \<noteq> [] then js_times (parseInt h) 1000 else Num 5000);
                  w2 = w1\<lparr>pauses := pauses w1 @ [RateLimitWait waitMs]\<rparr>
              in (Inl (new_Error (lit ''Rate limited: 429 - Retry after '' @ render waitMs
                                  @ lit ''ms'')), w2)
            else
              (case json r of
                 JsonValue (Raises e) d \<Rightarrow> (Inl e, w1)
               | errorData \<Rightarrow>
                   let errorMsg = lit ''API request failed: '' @ decimal (status r) @ lit '' ''
                         @ statusText r
                         @ (case errorData of JsonValue (Present m) d \<Rightarrow> lit '' - '' @ m | _ \<Rightarrow> [])
                   in (case maskApiKey (regexp pf) errorMsg (apiKey cfg) of
                         Inl e \<Rightarrow> (Inl e, w1)
                       | Inr masked \<Rightarrow> (Inl (new_Error masked), w1)))
          else
            (case json r of
               JsonRejects e \<Rightarrow> (Inl e, w1)
             | JsonValue m d \<Rightarrow> (Inr d, w1)))"

text \<open>
  The \<open>catch\<close> block: an \<open>AbortError\<close> becomes the timeout error; of any other error the
  message is masked in place (and a throw of \<open>maskApiKey\<close> itself propagates).
\<close>

definition catch_block :: "'a platform \<Rightarrow> config \<Rightarrow> js_error \<Rightarrow> js_error" where
  "catch_block pf cfg e =
     (if name e = lit ''AbortError''
      then new_Error (lit ''Request timeout after '' @ decimal (timeout cfg) @ lit ''ms'')
      else (case maskApiKey (regexp pf) (message e) (apiKey cfg) of
              Inl e' \<Rightarrow> e'
            | Inr masked \<Rightarrow> JsError (name e) masked))"

text \<open>One attempt: the closure that \<open>request\<close> hands to \<open>withRetry\<close>.\<close>

definition request_once ::
  "'a platform \<Rightarrow> config \<Rightarrow> fetch_call \<Rightarrow> world \<Rightarrow> (js_error + 'a) \<times> world" where
  "request_once pf cfg call w =
     (case try_block pf cfg call w of
        (Inl e, w') \<Rightarrow> (Inl (catch_block pf cfg e), w')
      | (Inr d, w') \<Rightarrow> (Inr d, w'))"

definition request ::
  "'a platform \<Rightarrow> config \<Rightarrow> jsstring \<Rightarrow> jsstring \<Rightarrow> request_body option \<Rightarrow> world
     \<Rightarrow> (js_error + 'a) \<times> world" where
  "request pf cfg method path b w =
     withRetry backoff
       (request_once pf cfg
          \<lparr>url = apiUrl cfg @ path, http_method = method,
           authorization = lit ''Bearer '' @ apiKey cfg, body = b\<rparr>)
       MAX_RETRIES w"

section \<open>The resource operations (client.ts)\<close>

definition validateContentSize :: "jsstring \<Rightarrow> js_error + unit" where
  "validateContentSize c =
     (if length c > MAX_CONTENT_SIZE
      then Inl (new_Error (lit ''Content exceeds maximum size of '' @ decimal MAX_CONTENT_SIZE
                           @ lit '' bytes''))
      else Inr ())"

definition storeMemory ::
  "'a platform \<Rightarrow> config \<Rightarrow> jsstring \<Rightarrow> metadata \<Rightarrow> world \<Rightarrow> (js_error + 'a) \<times> world" where
  "storeMemory pf cfg c md w =
     (case validateContentSize c of
        Inl e \<Rightarrow> (Inl e, w)
      | Inr u \<Rightarrow> request pf cfg (lit ''POST'') (lit ''/v1/memories/memories'')
                 (Some (StoreMemoryBody c md (agentId cfg))) w)"

definition searchMemories ::
  "'a platform \<Rightarrow> config \<Rightarrow> jsstring \<Rightarrow> real \<Rightarrow> real \<Rightarrow> world \<Rightarrow> (js_error + 'a) \<times> world" where
  "searchMemories pf cfg q limit threshold w =
     (case validateContentSize q of
        Inl e \<Rightarrow> (Inl e, w)
      | Inr u \<Rightarrow>
          (case request pf cfg (lit ''POST'') (lit ''/v1/memories/memories/search'')
                  (Some (SearchBody q limit threshold (agentId cfg))) w of
             (Inl e, w') \<Rightarrow> (Inl e, w')
           | (Inr resp, w') \<Rightarrow> (read_data pf resp, w')))"

definition updateMemory ::
  "'a platform \<Rightarrow> config \<Rightarrow> jsstring \<Rightarrow> jsstring \<Rightarrow> metadata \<Rightarrow> world
     \<Rightarrow> (js_error + 'a) \<times> world" where
  "updateMemory pf cfg ident c md w =
     (case validateContentSize c of
        Inl e \<Rightarrow> (Inl e, w)
      | Inr u \<Rightarrow> request pf cfg (lit ''PATCH'') (lit ''/v1/memories/memories/'' @ ident)
                 (Some (UpdateMemoryBody c md)) w)"

definition createEntity ::
  "'a platform \<Rightarrow> config \<Rightarrow> jsstring \<Rightarrow> jsstring \<Rightarrow> metadata \<Rightarrow> world
     \<Rightarrow> (js_error + 'a) \<times> world" where
  "createEntity pf cfg nm ty md w =
     (case validateContentSize nm of
        Inl e \<Rightarrow> (Inl e, w)
      | Inr u \<Rightarrow> request pf cfg (lit ''POST'') (lit ''/v1/entities'')
                 (Some (CreateEntityBody nm ty md)) w)"

record health =
  health_status :: jsstring
  health_message :: jsstring

text \<open>
  \<open>healthCheck\<close> wraps the request in \<open>try\<close>/\<open>catch\<close>; its result type keeps the \<open>Inl\<close> of a
  throw, which no branch produces.
\<close>

definition healthCheck :: "'a platform \<Rightarrow> config \<Rightarrow> world \<Rightarrow> (js_error + health) \<times> world" where
  "healthCheck pf cfg w =
     (case request pf cfg (lit ''GET'') (lit ''/v1/health'') None w of
        (Inr v, w') \<Rightarrow>
          (Inr \<lparr>health_status = lit ''healthy'',
                health_message = lit ''API connection successful''\<rparr>, w')
      | (Inl e, w') \<Rightarrow>
          (Inr \<lparr>health_status = lit ''unhealthy'',
                health_message = lit ''API connection failed: '' @ message e\<rparr>, w'))"

section \<open>The tool layer (server.ts)\<close>

text \<open>
  \<open>sanitizeHtml\<close>: six global replacements of a single character, in the source's order.
\<close>

definition sanitizeHtml :: "jsstring \<Rightarrow> jsstring" where
  "sanitizeHtml str =
     replace_all (lit ''/'') (lit ''&#x2F;'')
       (replace_all [cu (CHR 0x27)] (lit ''&#x27;'')
         (replace_all [cu (CHR 0x22)] (lit ''&quot;'')
           (replace_all (lit ''>'') (lit ''&gt;'')
             (replace_all (lit ''<'') (lit ''&lt;'')
               (replace_all (lit ''&'') (lit ''&amp;'') str)))))"

text \<open>
  What \<open>sanitizeHtml\<close> is meant to compute: every character is replaced by its HTML entity,
  or kept.
\<close>

definition html_entity :: "code_unit \<Rightarrow> jsstring" where
  "html_entity c =
     (if c = cu CHR ''&'' then lit ''&amp;''
      else if c = cu CHR ''<'' then lit ''&lt;''
      else if c = cu CHR ''>'' then lit ''&gt;''
      else if c = cu (CHR 0x22) then lit ''&quot;''
      else if c = cu (CHR 0x27) then lit ''&#x27;''
      else if c = cu CHR ''/'' then lit ''&#x2F;''
      else [c])"

text \<open>The raw tag and attribute delimiters: \<open><\<close>, \<open>>\<close>, the two quotes and \<open>/\<close>.\<close>

definition raw_delimiters :: "code_unit list" where
  "raw_delimiters = [cu CHR ''<'', cu CHR ''>'', cu (CHR 0x22), cu (CHR 0x27), cu CHR ''/'']"


text \<open>
  The arguments of the \<open>entity_create\<close> tool as the handler's schema sees them: \<open>name\<close> and
  \<open>type\<close> are \<open>None\<close> when missing or not a string; \<open>metadata\<close> is absent or a record of
  strings.
\<close>

record entity_args =
  arg_name :: "jsstring option"
  arg_type :: "jsstring option"
  arg_metadata :: metadata

definition entity_types :: "jsstring list" where
  "entity_types = [lit ''person'', lit ''place'', lit ''organization'', lit ''project'',
                   lit ''concept'', lit ''other'']"

text \<open>\<open>entitySchema.parse\<close>: \<open>None\<close> is the \<open>ZodError\<close>.\<close>

definition entitySchema_parse :: "entity_args \<Rightarrow> (jsstring \<times> jsstring \<times> metadata) option" where
  "entitySchema_parse args =
     (case (arg_name args, arg_type args) of
        (Some nm, Some ty) \<Rightarrow>
          if 1 \<le> length nm \<and> length nm \<le> 200 \<and> ty \<in> set entity_types
          then Some (nm, ty, arg_metadata args) else None
      | _ \<Rightarrow> None)"

datatype 'a tool_result = ToolContent 'a | ToolError jsstring

definition entity_create ::
  "'a platform \<Rightarrow> config \<Rightarrow> entity_args \<Rightarrow> world \<Rightarrow> 'a tool_result \<times> world" where
  "entity_create pf cfg args w =
     (case entitySchema_parse args of
        None \<Rightarrow> (ToolError (lit ''Validation error''), w)
      | Some (nm, ty, md) \<Rightarrow>
          let sanitizedName = sanitizeHtml nm in
          (case createEntity pf cfg sanitizedName ty md w of
             (Inr entity, w') \<Rightarrow> (ToolContent entity, w')
           | (Inl e, w') \<Rightarrow> (ToolError (message e), w')))"

section \<open>The size of a string in UTF-8\<close>

text \<open>
  The number of bytes of the UTF-8 encoding of a string of UTF-16 code units: a surrogate
  pair is one code point of 4 bytes, a lone surrogate is encoded as U+FFFD (3 bytes). The
  source has no such function; it is the measure the size guard is compared with.
\<close>

definition unit_bytes :: "code_unit \<Rightarrow> nat" where
  "unit_bytes c = (if c < 0x80 then 1 else if c < 0x800 then 2 else 3)"

definition high_surrogate :: "code_unit \<Rightarrow> bool" where
  "high_surrogate c = (0xD800 \<le> c \<and> c \<le> 0xDBFF)"

definition low_surrogate :: "code_unit \<Rightarrow> bool" where
  "low_surrogate c = (0xDC00 \<le> c \<and> c \<le> 0xDFFF)"

fun utf8_length :: "jsstring \<Rightarrow> nat" where
  "utf8_length [] = 0"
| "utf8_length [c] = unit_bytes c"
| "utf8_length (c # d # cs) =
     (if high_surrogate c \<and> low_surrogate d then 4 + utf8_length cs
      else unit_bytes c + utf8_length (d # cs))"

section \<open>Closed examples\<close>

text \<open>An operation that fails with a 500 twice and then succeeds; its state counts its calls.\<close>

definition flaky :: "nat \<Rightarrow> (js_error + nat) \<times> nat" where
  "flaky s =
     (if s < 2 then (Inl (new_Error (lit ''API request failed: 500 Internal Server Error'')), Suc s)
      else (Inr 200, Suc s))"

text \<open>
  The configuration and the failing server of tests/client.test.ts: every call of \<open>fetch\<close>
  rejects with \<open>Connection refused\<close>.
\<close>

definition test_config :: config where
  "test_config = \<lparr>apiKey = lit ''mem_test_1234567890abcdef'',
     apiUrl = lit ''https://api.memoryrelay.net'', agentId = lit ''test-agent'',
     timeout = 5000\<rparr>"

definition refusing :: "unit platform" where
  "refusing = \<lparr>fetch = (\<lambda>calls. Rejected (JsError (lit ''Error'') (lit ''Connection refused''))),
     regexp = rejecting_engine, read_data = Inr\<rparr>"

definition new_world :: world where
  "new_world = \<lparr>fetched = [], pauses = []\<rparr>"


text \<open>The call of \<open>fetch\<close> that \<open>healthCheck\<close> makes under \<open>test_config\<close>.\<close>

definition health_call :: fetch_call where
  "health_call = \<lparr>url = lit ''https://api.memoryrelay.net/v1/health'', http_method = lit ''GET'',
     authorization = lit ''Bearer mem_test_1234567890abcdef'', body = None\<rparr>"

text \<open>Arguments whose name is 200 times \<open><\<close>: the longest name the schema accepts.\<close>

definition angle_args :: entity_args where
  "angle_args = \<lparr>arg_name = Some (replicate 200 (cu CHR ''<'')), arg_type = Some (lit ''person''),
     arg_metadata = None\<rparr>"

text \<open>Arguments whose name holds a tag, an ampersand and a closing tag.\<close>

definition tag_args :: entity_args where
  "tag_args = \<lparr>arg_name = Some (lit ''<b>Tom & Co</b>''), arg_type = Some (lit ''person''),
     arg_metadata = None\<rparr>"

text \<open>
  The server of the masking test of tests/client.test.ts: it answers 401 and echoes a key in
  the message of its error body.
\<close>

definition echoing :: "jsstring \<Rightarrow> unit platform" where
  "echoing k =
     \<lparr>fetch = (\<lambda>calls. Resolved
        \<lparr>ok = False, status = 401, statusText = lit ''Unauthorized'', retry_after = None,
         json = JsonValue (Present (lit ''Key: '' @ k @ lit '' failed'')) ()\<rparr>),
      regexp = rejecting_engine, read_data = Inr\<rparr>"

text \<open>A server that never answers: every call of \<open>fetch\<close> is aborted by the timeout.\<close>

definition never_answering :: "unit platform" where
  "never_answering =
     \<lparr>fetch = (\<lambda>calls. Rejected (JsError (lit ''AbortError'') (lit ''This operation was aborted''))),
      regexp = rejecting_engine, read_data = Inr\<rparr>"

text \<open>The call of \<open>fetch\<close> that \<open>storeMemory('test content')\<close> makes under \<open>test_config\<close>.\<close>

definition store_call :: fetch_call where
  "store_call = \<lparr>url = lit ''https://api.memoryrelay.net/v1/memories/memories'',
     http_method = lit ''POST'', authorization = lit ''Bearer mem_test_1234567890abcdef'',
     body = Some (StoreMemoryBody (lit ''test content'') None (lit ''test-agent''))\<rparr>"

text \<open>
  The rate-limited server of tests/client.test.ts: the first call is answered 429 with the
  given \<open>Retry-After\<close> header, every later call 200.
\<close>

definition rate_limited :: "jsstring option \<Rightarrow> unit platform" where
  "rate_limited h =
     \<lparr>fetch = (\<lambda>calls.
        if length calls = 1
        then Resolved \<lparr>ok = False, status = 429, statusText = lit ''Too Many Requests'',
                       retry_after = h, json = JsonValue (Present (lit ''Rate limited'')) ()\<rparr>
        else Resolved \<lparr>ok = True, status = 200, statusText = lit ''OK'', retry_after = None,
                       json = JsonValue Absent ()\<rparr>),
      regexp = rejecting_engine, read_data = Inr\<rparr>"

text \<open>A server that answers every call 200.\<close>

definition accepting :: "unit platform" where
  "accepting =
     \<lparr>fetch = (\<lambda>calls. Resolved \<lparr>ok = True, status = 200, statusText = lit ''OK'',
                                   retry_after = None, json = JsonValue Absent ()\<rparr>),
      regexp = rejecting_engine, read_data = Inr\<rparr>"

text \<open>A server that answers every call 500, with a message in the error body.\<close>

definition failing_500 :: "jsstring \<Rightarrow> unit platform" where
  "failing_500 m =
     \<lparr>fetch = (\<lambda>calls. Resolved \<lparr>ok = False, status = 500,
                                   statusText = lit ''Internal Server Error'', retry_after = None,
                                   json = JsonValue (Present m) ()\<rparr>),
      regexp = rejecting_engine, read_data = Inr\<rparr>"

section \<open>Facts about strings\<close>

lemma unat_cu: "unat (cu c) = of_char c"
proof -
  have "(of_char c :: nat) < 256" by simp
  also have "(256 :: nat) < 2 ^ 16" by simp
  finally show ?thesis by (simp add: cu_def unat_of_nat)
qed

lemma cu_eq_iff [simp]: "cu a = cu b \<longleftrightarrow> a = b"
proof
  assume "cu a = cu b"
  then have "unat (cu a) = unat (cu b)" by simp
  then show "a = b" by (simp add: unat_cu)
qed simp

lemma lit_simps [simp]:
  "lit [] = []" "lit (c # cs) = cu c # lit cs" "lit (a @ b) = lit a @ lit b"
  by (simp_all add: lit_def)

lemma length_lit [simp]: "length (lit s) = length s"
  by (simp add: lit_def)

lemma str_includes_sublist: "str_includes s p \<longleftrightarrow> sublist p s"
  by (induction s) (auto simp: sublist_Cons_right)

lemma str_includes_appendI: "str_includes (a @ p @ b) p"
  by (simp add: str_includes_sublist)

lemma star_not_literal: "literal_pattern p \<Longrightarrow> cu CHR ''*'' \<notin> set p"
  by (auto simp: literal_pattern_def SyntaxCharacter_def list_all_iff)

lemma dollar_not_literal: "literal_pattern p \<Longrightarrow> cu CHR ''$'' \<notin> set p"
  by (auto simp: literal_pattern_def SyntaxCharacter_def list_all_iff)

subsection \<open>Occurrences of a pattern across a separator it does not contain\<close>

lemma prefix_before_sep:
  "x \<notin> set u \<Longrightarrow> prefix u (a @ x # b) \<Longrightarrow> prefix u a"
proof (induction a arbitrary: u)
  case Nil
  then show ?case by (cases u) auto
next
  case (Cons y a)
  then show ?case by (cases u) auto
qed

lemma sublist_across_sep:
  "x \<notin> set u \<Longrightarrow> sublist u (a @ x # b) \<Longrightarrow> sublist u a \<or> sublist u b"
proof (induction a)
  case Nil
  then show ?case
    by (cases u) (auto simp: sublist_Cons_right)
next
  case (Cons y a)
  from Cons.prems(2) have "prefix u (y # a @ x # b) \<or> sublist u (a @ x # b)"
    by (simp add: sublist_Cons_right)
  then show ?case
  proof
    assume "prefix u (y # a @ x # b)"
    then have "prefix u ((y # a) @ x # b)" by simp
    then have "prefix u (y # a)" using Cons.prems(1) by (rule prefix_before_sep [rotated])
    then show ?thesis by blast
  next
    assume "sublist u (a @ x # b)"
    with Cons have "sublist u a \<or> sublist u b" by blast
    then show ?thesis by (auto simp: sublist_Cons_right)
  qed
qed

subsection \<open>What the replacement leaves of the pattern\<close>

text \<open>
  The mask is the first 8 code units of the key and three stars. A star-free string that
  starts the masked text started the original text: up to the first match nothing changed,
  and the match itself began with the same 8 code units.
\<close>

lemma prefix_replace_all:
  "x \<notin> set u \<Longrightarrow> prefix u (replace_all p (take n p @ x # r) t) \<Longrightarrow> prefix u t"
proof (induction p "take n p @ x # r" t arbitrary: u rule: replace_all.induct)
  case (1 p)
  then show ?case by simp
next
  case (2 p c cs)
  show ?case
  proof (cases "p \<noteq> [] \<and> prefix p (c # cs)")
    case True
    with "2.prems"
    have "prefix u (take n p @ x # (r @ replace_all p (take n p @ x # r) (drop (length p) (c # cs))))"
      by simp
    then have "prefix u (take n p)"
      using "2.prems"(1) by (rule prefix_before_sep [rotated])
    then have "prefix u p"
      using take_is_prefix prefix_order.order_trans by blast
    with True show ?thesis
      using prefix_order.order_trans by blast
  next
    case False
    with "2.prems" have pre: "prefix u (c # replace_all p (take n p @ x # r) cs)"
      by auto
    show ?thesis
    proof (cases u)
      case Nil
      then show ?thesis by simp
    next
      case (Cons v u')
      with pre have "v = c" "prefix u' (replace_all p (take n p @ x # r) cs)" by auto
      moreover have "x \<notin> set u'" using "2.prems"(1) Cons by simp
      ultimately have "prefix u' cs" using "2.hyps"(2) False by blast
      with Cons \<open>v = c\<close> show ?thesis by simp
    qed
  qed
qed

lemma sublist_after_seps:
  "x \<notin> set p \<Longrightarrow> p \<noteq> [] \<Longrightarrow> sublist p (replicate m x @ t) \<Longrightarrow> sublist p t"
proof (induction m)
  case 0
  then show ?case by simp
next
  case (Suc m)
  from Suc.prems(3) have "sublist p ([] @ x # (replicate m x @ t))" by simp
  then have "sublist p [] \<or> sublist p (replicate m x @ t)"
    using Suc.prems(1) by (rule sublist_across_sep [rotated])
  with Suc show ?case by auto
qed

text \<open>
  When the key is longer than the 8 code units kept and has no star, the masked text has no
  occurrence of it: none inside a mask, none across the stars, and none that starts in
  unchanged text, since the scan would have matched there.
\<close>

lemma no_sublist_replace_all_aux:
  "r = take n p @ x # replicate m x \<Longrightarrow> x \<notin> set p \<Longrightarrow> n < length p \<Longrightarrow>
   \<not> sublist p (replace_all p r t)"
proof (induction p r t rule: replace_all.induct)
  case (1 p r)
  then show ?case by auto
next
  case (2 p r c cs)
  note r = "2.prems"(1) and x = "2.prems"(2) and n = "2.prems"(3)
  show ?case
  proof (cases "p \<noteq> [] \<and> prefix p (c # cs)")
    case True
    let ?rest = "replace_all p r (drop (length p) (c # cs))"
    have ih: "\<not> sublist p ?rest" by (rule "2.IH"(1) [OF True r x n])
    have short: "\<not> sublist p (take n p)"
    proof
      assume "sublist p (take n p)"
      then have "length p \<le> length (take n p)" by (rule sublist_length_le)
      with n show False by simp
    qed
    have "\<not> sublist p (take n p @ x # (replicate m x @ ?rest))"
    proof
      assume "sublist p (take n p @ x # (replicate m x @ ?rest))"
      with x have "sublist p (take n p) \<or> sublist p (replicate m x @ ?rest)"
        by (rule sublist_across_sep)
      with short have "sublist p (replicate m x @ ?rest)" by simp
      with x True have "sublist p ?rest" by (simp add: sublist_after_seps)
      with ih show False by simp
    qed
    moreover have "replace_all p r (c # cs) = take n p @ x # (replicate m x @ ?rest)"
      using True r by simp
    ultimately show ?thesis by simp
  next
    case False
    have eq: "replace_all p r (c # cs) = c # replace_all p r cs"
      using False by auto
    have "\<not> prefix p (replace_all p r (c # cs))"
    proof
      assume "prefix p (replace_all p r (c # cs))"
      then have "prefix p (replace_all p (take n p @ x # replicate m x) (c # cs))"
        by (simp only: r)
      with x have "prefix p (c # cs)" by (rule prefix_replace_all)
      moreover from n have "p \<noteq> []" by auto
      ultimately show False using False by simp
    qed
    moreover have "\<not> sublist p (replace_all p r cs)"
      by (rule "2.IH"(2) [OF False r x n])
    ultimately show ?thesis unfolding eq by (simp add: sublist_Cons_right)
  qed
qed

lemma no_sublist_replace_all:
  "x \<notin> set p \<Longrightarrow> n < length p \<Longrightarrow>
   \<not> sublist p (replace_all p (take n p @ x # replicate m x) t)"
  by (rule no_sublist_replace_all_aux [OF refl])

lemma sublist_replace_all:
  "p \<noteq> [] \<Longrightarrow> sublist p t \<Longrightarrow> sublist r (replace_all p r t)"
proof (induction p r t rule: replace_all.induct)
  case (1 p r)
  then show ?case by simp
next
  case (2 p r c cs)
  show ?case
  proof (cases "prefix p (c # cs)")
    case True
    with "2.prems" show ?thesis by simp
  next
    case False
    with "2.prems" have "sublist p cs" by (simp add: sublist_Cons_right)
    with "2.prems" False "2.IH"(2) have "sublist r (replace_all p r cs)" by blast
    with False show ?thesis by (simp add: sublist_Cons_right)
  qed
qed

lemma mask_literal:
  assumes "k \<noteq> []" "literal_pattern k"
  shows "maskApiKey rx msg k =
           Inr (replace_all k (take 8 k @ cu CHR ''*'' # replicate 2 (cu CHR ''*'')) msg)"
proof -
  have "cu CHR ''$'' \<notin> set (take 8 k)"
    using dollar_not_literal [OF assms(2)] by (auto dest: in_set_takeD)
  then have "cu CHR ''$'' \<notin> set (take 8 k @ lit ''***'')" by simp
  moreover have "replicate 2 (cu CHR ''*'') = [cu CHR ''*'', cu CHR ''*'']"
    by (simp add: numeral_2_eq_2)
  ultimately show ?thesis
    using assms by (simp add: maskApiKey_def regexp_replace_g_def)
qed

lemma mask_removes_key:
  assumes "8 < length k" "literal_pattern k"
  shows "\<exists>t. maskApiKey rx msg k = Inr t \<and> \<not> str_includes t k"
proof -
  from assms(1) have ne: "k \<noteq> []" by auto
  have "\<not> sublist k
          (replace_all k (take 8 k @ cu CHR ''*'' # replicate 2 (cu CHR ''*'')) msg)"
    using star_not_literal [OF assms(2)] assms(1) by (rule no_sublist_replace_all)
  then show ?thesis
    by (simp add: mask_literal [OF ne assms(2)] str_includes_sublist)
qed

section \<open>Claims about the redactor\<close>

text \<open>
  C2, as amended. For every secret \<open>k\<close> of more than 8 code units that has no
  regular-expression syntax character, and every string \<open>s\<close> containing \<open>k\<close>, \<open>maskApiKey\<close>
  returns (it does not throw) a string with no occurrence of \<open>k\<close> and at least one
  occurrence of the first 8 code units of \<open>k\<close> followed by \<open>***\<close>.
\<close>

theorem maskApiKey_redacts:
  assumes "8 < length k" "literal_pattern k" "str_includes s k"
  shows "\<exists>t. maskApiKey rx s k = Inr t \<and> \<not> str_includes t k
              \<and> str_includes t (take 8 k @ lit ''***'')"
proof -
  from assms(1) have ne: "k \<noteq> []" by auto
  let ?m = "take 8 k @ cu CHR ''*'' # replicate 2 (cu CHR ''*'')"
  have m: "?m = take 8 k @ lit ''***''" by (simp add: numeral_2_eq_2)
  have eq: "maskApiKey rx s k = Inr (replace_all k ?m s)"
    using ne assms(2) by (rule mask_literal)
  have "\<not> sublist k (replace_all k ?m s)"
    using star_not_literal [OF assms(2)] assms(1) by (rule no_sublist_replace_all)
  moreover have "sublist ?m (replace_all k ?m s)"
    using ne assms(3) by (simp add: sublist_replace_all str_includes_sublist)
  ultimately show ?thesis
    unfolding eq m [symmetric] by (simp add: str_includes_sublist)
qed

theorem maskApiKey_redacts_witness:
  "\<exists>t. maskApiKey rejecting_engine (lit ''Key: mem_test_12345678 failed'') (lit ''mem_test_12345678'')
          = Inr t
        \<and> \<not> str_includes t (lit ''mem_test_12345678'')
        \<and> str_includes t (take 8 (lit ''mem_test_12345678'') @ lit ''***'')"
proof -
  have "literal_pattern (lit ''mem_test_12345678'')"
    by (simp add: literal_pattern_def SyntaxCharacter_def)
  moreover have "str_includes (lit ''Key: mem_test_12345678 failed'') (lit ''mem_test_12345678'')"
    by simp
  ultimately show ?thesis
    using maskApiKey_redacts [of "lit ''mem_test_12345678''" "lit ''Key: mem_test_12345678 failed''"
        rejecting_engine]
    by simp
qed

text \<open>
  C2 as stated fails for a secret of at most 8 code units, which the mask keeps whole: the
  6-unit key \<open>secret\<close> is masked as \<open>secret***\<close>, which still contains it.
\<close>

theorem maskApiKey_short_key_counterexample:
  "maskApiKey rejecting_engine (lit ''token secret sent'') (lit ''secret'')
     = Inr (lit ''token secret*** sent'')
   \<and> str_includes (lit ''token secret sent'') (lit ''secret'')
   \<and> str_includes (lit ''token secret*** sent'') (lit ''secret'')"
  by (simp add: maskApiKey_def regexp_replace_g_def literal_pattern_def SyntaxCharacter_def)

section \<open>The retry loop\<close>

text \<open>
  Each pass of the loop runs the operation once. With a measure \<open>m\<close> that every run of the
  operation raises by one and no wait changes, the loop raises it by at least one and at most
  by the passes left.
\<close>

lemma withRetry_loop_steps:
  assumes step: "\<And>s r s'. fn s = (r, s') \<Longrightarrow> m s' = Suc (m s)"
    and sl: "\<And>d s. m (sleep d s) = m s"
  shows "retries - attempt = k \<Longrightarrow> attempt \<le> retries \<Longrightarrow>
         withRetry_loop sleep fn retries attempt le s = (r, s') \<Longrightarrow>
         m s < m s' \<and> m s' \<le> m s + Suc k"
proof (induction k arbitrary: attempt le s)
  case 0
  then have last: "attempt = retries" by simp
  obtain r1 s1 where f: "fn s = (r1, s1)" by (cases "fn s")
  from "0.prems"(3) f last have "s' = s1"
    by (subst (asm) withRetry_loop.simps) (auto split: sum.splits if_splits)
  with step [OF f] show ?case by simp
next
  case (Suc k)
  then have lt: "attempt < retries" by simp
  obtain r1 s1 where f: "fn s = (r1, s1)" by (cases "fn s")
  have m1: "m s1 = Suc (m s)" by (rule step [OF f])
  show ?case
  proof (cases "\<exists>e. r1 = Inl e \<and> \<not> non_retryable (message e)")
    case True
    then obtain e where e: "r1 = Inl e" "\<not> non_retryable (message e)" by blast
    let ?s2 = "sleep (INITIAL_DELAY_MS * 2 ^ attempt) s1"
    from Suc.prems(3) f e lt
    have rec: "withRetry_loop sleep fn retries (attempt + 1) (Some e) ?s2 = (r, s')"
      by (subst (asm) withRetry_loop.simps) simp
    have "retries - (attempt + 1) = k" using Suc.prems(1) by simp
    moreover have "attempt + 1 \<le> retries" using lt by simp
    ultimately have "m ?s2 < m s' \<and> m s' \<le> m ?s2 + Suc k"
      using rec by (rule Suc.IH)
    with m1 sl show ?thesis by simp
  next
    case False
    from Suc.prems(3) f False lt have "s' = s1"
      by (subst (asm) withRetry_loop.simps) (auto split: sum.splits if_splits)
    with m1 show ?thesis by simp
  qed
qed

lemma withRetry_steps:
  assumes step: "\<And>s r s'. fn s = (r, s') \<Longrightarrow> m s' = Suc (m s)"
    and sl: "\<And>d s. m (sleep d s) = m s"
    and run: "withRetry sleep fn retries s = (r, s')"
  shows "m s < m s' \<and> m s' \<le> m s + Suc retries"
  using withRetry_loop_steps [of fn m sleep retries 0 retries None s r s', OF step sl] run
  by (simp add: withRetry_def)

lemma counted_step: "counted fn p = (r, p') \<Longrightarrow> fst p' = Suc (fst p)"
  by (cases p) (auto simp: counted_def split: prod.splits)

lemma counted_sleep_fst: "fst (counted_sleep sleep d p) = fst p"
  by (cases p) (simp add: counted_sleep_def)

text \<open>
  C5. \<open>withRetry\<close> with the default budget invokes the operation at most 4 times; when the
  operation fails retryably on its first two invocations and succeeds on the third, it is
  invoked exactly three times and the third invocation's value is returned.
\<close>

theorem withRetry_attempts:
  "fst (snd (withRetry (counted_sleep sleep) (counted fn) MAX_RETRIES (0, s))) \<le> 4
   \<and> (fn s = (Inl e1, s1) \<and> \<not> non_retryable (message e1)
        \<and> fn (sleep 1000 s1) = (Inl e2, s2) \<and> \<not> non_retryable (message e2)
        \<and> fn (sleep 2000 s2) = (Inr v, s3)
      \<longrightarrow> withRetry (counted_sleep sleep) (counted fn) MAX_RETRIES (0, s) = (Inr v, (3, s3)))"
proof
  obtain r p where run: "withRetry (counted_sleep sleep) (counted fn) MAX_RETRIES (0, s) = (r, p)"
    by (cases "withRetry (counted_sleep sleep) (counted fn) MAX_RETRIES (0, s)")
  have "fst (0 :: nat, s) < fst p \<and> fst p \<le> fst (0 :: nat, s) + Suc MAX_RETRIES"
    using counted_step counted_sleep_fst run by (rule withRetry_steps)
  then have "fst p \<le> 4" by (simp add: MAX_RETRIES_def)
  then show "fst (snd (withRetry (counted_sleep sleep) (counted fn) MAX_RETRIES (0, s))) \<le> 4"
    by (simp add: run)
next
  show "fn s = (Inl e1, s1) \<and> \<not> non_retryable (message e1)
        \<and> fn (sleep 1000 s1) = (Inl e2, s2) \<and> \<not> non_retryable (message e2)
        \<and> fn (sleep 2000 s2) = (Inr v, s3)
      \<longrightarrow> withRetry (counted_sleep sleep) (counted fn) MAX_RETRIES (0, s) = (Inr v, (3, s3))"
  proof (intro impI, elim conjE)
    assume first: "fn s = (Inl e1, s1)" "\<not> non_retryable (message e1)"
      and second: "fn (sleep 1000 s1) = (Inl e2, s2)" "\<not> non_retryable (message e2)"
      and third: "fn (sleep 2000 s2) = (Inr v, s3)"
    have "withRetry_loop (counted_sleep sleep) (counted fn) 3 (Suc (Suc 0)) (Some e2)
            (Suc (Suc 0), sleep 2000 s2)
            = (Inr v, (3, s3))"
      by (subst withRetry_loop.simps) (simp add: counted_def third)
    then have "withRetry_loop (counted_sleep sleep) (counted fn) 3 (Suc 0) (Some e1)
            (Suc 0, sleep 1000 s1)
            = (Inr v, (3, s3))"
      by (subst withRetry_loop.simps)
        (simp add: counted_def counted_sleep_def second INITIAL_DELAY_MS_def)
    then have "withRetry_loop (counted_sleep sleep) (counted fn) 3 0 None (0, s)
            = (Inr v, (3, s3))"
      by (subst withRetry_loop.simps)
        (simp add: counted_def counted_sleep_def first INITIAL_DELAY_MS_def)
    then show "withRetry (counted_sleep sleep) (counted fn) MAX_RETRIES (0, s) = (Inr v, (3, s3))"
      by (simp add: withRetry_def MAX_RETRIES_def)
  qed
qed

theorem withRetry_attempts_witness:
  "fst (snd (withRetry (counted_sleep (\<lambda>d s. s)) (counted flaky) MAX_RETRIES (0, 0))) \<le> 4
   \<and> withRetry (counted_sleep (\<lambda>d s. s)) (counted flaky) MAX_RETRIES (0, 0) = (Inr 200, (3, 3))"
  using withRetry_attempts [of "\<lambda>d s. s" flaky 0
      "new_Error (lit ''API request failed: 500 Internal Server Error'')" 1
      "new_Error (lit ''API request failed: 500 Internal Server Error'')" 2 200 3]
  by (simp add: flaky_def new_Error_def non_retryable_def numeral_2_eq_2 numeral_3_eq_3)

subsection \<open>The classification of failures\<close>

text \<open>
  What decides a retry is the text of the message. An error whose message contains one of the
  four digit strings is rethrown by the pass that caught it; an operation whose every
  failure has none of them, and which never succeeds, is invoked on every pass of the budget.
\<close>

lemma withRetry_non_retryable:
  "fn s = (Inl e, s') \<Longrightarrow> non_retryable (message e) \<Longrightarrow>
   withRetry sleep fn retries s = (Inl e, s')"
  by (simp add: withRetry_def withRetry_loop.simps [of _ _ _ 0])

lemma withRetry_loop_exhausts:
  assumes fails: "\<And>s. \<exists>e s'. fn s = (Inl e, s') \<and> \<not> non_retryable (message e)"
  shows "retries - attempt = k \<Longrightarrow> attempt \<le> retries \<Longrightarrow>
         \<exists>e s'. withRetry_loop (counted_sleep sleep) (counted fn) retries attempt le (n, s)
                  = (Inl e, (n + Suc k, s'))"
proof (induction k arbitrary: attempt le n s)
  case 0
  then have last: "attempt = retries" by simp
  obtain e s1 where f: "fn s = (Inl e, s1)" "\<not> non_retryable (message e)"
    using fails by blast
  have "withRetry_loop (counted_sleep sleep) (counted fn) retries attempt le (n, s)
          = (Inl e, (n + Suc 0, s1))"
    by (subst withRetry_loop.simps) (simp add: counted_def f last)
  then show ?case by blast
next
  case (Suc k)
  then have lt: "attempt < retries" by simp
  obtain e s1 where f: "fn s = (Inl e, s1)" "\<not> non_retryable (message e)"
    using fails by blast
  let ?s2 = "sleep (INITIAL_DELAY_MS * 2 ^ attempt) s1"
  have step: "withRetry_loop (counted_sleep sleep) (counted fn) retries attempt le (n, s)
          = withRetry_loop (counted_sleep sleep) (counted fn) retries (attempt + 1) (Some e)
              (Suc n, ?s2)"
    using lt by (subst withRetry_loop.simps) (simp add: counted_def counted_sleep_def f)
  have "retries - (attempt + 1) = k" using Suc.prems(1) by simp
  moreover have "attempt + 1 \<le> retries" using lt by simp
  ultimately have "\<exists>e' s'. withRetry_loop (counted_sleep sleep) (counted fn) retries (attempt + 1)
                     (Some e) (Suc n, ?s2) = (Inl e', (Suc n + Suc k, s'))"
    by (rule Suc.IH)
  then show ?case by (simp add: step)
qed

lemma withRetry_exhausts:
  assumes "\<And>s. \<exists>e s'. fn s = (Inl e, s') \<and> \<not> non_retryable (message e)"
  shows "\<exists>e s'. withRetry (counted_sleep sleep) (counted fn) retries (0, s)
                 = (Inl e, (Suc retries, s'))"
  using withRetry_loop_exhausts [of fn retries 0 retries sleep None 0 s, OF assms]
  by (simp add: withRetry_def)

section \<open>The calls of fetch a request makes\<close>

lemma withRetry_loop_log:
  assumes step: "\<And>s r s'. fn s = (r, s') \<Longrightarrow> g s' = g s @ [x]"
    and sl: "\<And>d s. g (sleep d s) = g s"
  shows "retries - attempt = k \<Longrightarrow> attempt \<le> retries \<Longrightarrow>
         withRetry_loop sleep fn retries attempt le s = (r, s') \<Longrightarrow>
         \<exists>n. 1 \<le> n \<and> n \<le> Suc k \<and> g s' = g s @ replicate n x"
proof (induction k arbitrary: attempt le s)
  case 0
  then have last: "attempt = retries" by simp
  obtain r1 s1 where f: "fn s = (r1, s1)" by (cases "fn s")
  from "0.prems"(3) f last have "s' = s1"
    by (subst (asm) withRetry_loop.simps) (auto split: sum.splits if_splits)
  with step [OF f] have "g s' = g s @ replicate 1 x" by simp
  then show ?case by (intro exI [of _ 1]) simp
next
  case (Suc k)
  then have lt: "attempt < retries" by simp
  obtain r1 s1 where f: "fn s = (r1, s1)" by (cases "fn s")
  have g1: "g s1 = g s @ [x]" by (rule step [OF f])
  show ?case
  proof (cases "\<exists>e. r1 = Inl e \<and> \<not> non_retryable (message e)")
    case True
    then obtain e where e: "r1 = Inl e" "\<not> non_retryable (message e)" by blast
    let ?s2 = "sleep (INITIAL_DELAY_MS * 2 ^ attempt) s1"
    from Suc.prems(3) f e lt
    have rec: "withRetry_loop sleep fn retries (attempt + 1) (Some e) ?s2 = (r, s')"
      by (subst (asm) withRetry_loop.simps) simp
    have "retries - (attempt + 1) = k" using Suc.prems(1) by simp
    moreover have "attempt + 1 \<le> retries" using lt by simp
    ultimately have "\<exists>n. 1 \<le> n \<and> n \<le> Suc k \<and> g s' = g ?s2 @ replicate n x"
      using rec by (rule Suc.IH)
    then obtain n where n: "1 \<le> n" "n \<le> Suc k" "g s' = g ?s2 @ replicate n x"
      by blast
    have "g s' = g s @ replicate (Suc n) x"
      by (simp add: n(3) sl g1)
    moreover have "1 \<le> Suc n" "Suc n \<le> Suc (Suc k)" using n(2) by simp_all
    ultimately show ?thesis by blast
  next
    case False
    from Suc.prems(3) f False lt have "s' = s1"
      by (subst (asm) withRetry_loop.simps) (auto split: sum.splits if_splits)
    with g1 have "g s' = g s @ replicate 1 x" by simp
    then show ?thesis by (intro exI [of _ 1]) simp
  qed
qed

lemma try_block_fetched:
  "fetched (snd (try_block pf cfg call w)) = fetched w @ [call]"
  by (simp add: try_block_def Let_def split: fetch_outcome.split json_outcome.split
      message_read.split sum.split option.split)

lemma request_once_fetched:
  "request_once pf cfg call w = (r, w') \<Longrightarrow> fetched w' = fetched w @ [call]"
  using try_block_fetched [of pf cfg call w]
  by (cases "try_block pf cfg call w") (auto simp: request_once_def split: sum.splits)

lemma backoff_fetched: "fetched (backoff d w) = fetched w"
  by (simp add: backoff_def)

text \<open>
  Every request makes between one and four calls of \<open>fetch\<close>, all with the same URL, method,
  header and body.
\<close>

lemma request_fetched:
  assumes "request pf cfg method path b w = (r, w')"
  shows "\<exists>n. 1 \<le> n \<and> n \<le> 4 \<and>
           fetched w' = fetched w @ replicate n
             \<lparr>url = apiUrl cfg @ path, http_method = method,
              authorization = lit ''Bearer '' @ apiKey cfg, body = b\<rparr>"
proof -
  let ?call = "\<lparr>url = apiUrl cfg @ path, http_method = method,
                 authorization = lit ''Bearer '' @ apiKey cfg, body = b\<rparr>"
  have "withRetry_loop backoff (request_once pf cfg ?call) MAX_RETRIES 0 None w = (r, w')"
    using assms by (simp add: request_def withRetry_def)
  then have "\<exists>n. 1 \<le> n \<and> n \<le> Suc MAX_RETRIES \<and> fetched w' = fetched w @ replicate n ?call"
    using withRetry_loop_log [of "request_once pf cfg ?call" fetched ?call backoff
        MAX_RETRIES 0 MAX_RETRIES None w r w', OF request_once_fetched backoff_fetched]
    by simp
  then show ?thesis by (simp add: MAX_RETRIES_def)
qed

lemma request_fetched_grows:
  "length (fetched w) < length (fetched (snd (request pf cfg method path b w)))"
proof -
  obtain r w' where run: "request pf cfg method path b w = (r, w')"
    by (cases "request pf cfg method path b w")
  from request_fetched [OF run] show ?thesis by (auto simp: run)
qed

subsection \<open>Evaluating the model on closed inputs\<close>

lemma cu_eq_word: "cu c = w \<longleftrightarrow> of_char c = unat w"
proof
  assume "cu c = w"
  then show "of_char c = unat w" using unat_cu by auto
next
  assume "of_char c = unat w"
  then have "unat (cu c) = unat w" by (simp add: unat_cu)
  then show "cu c = w" by (simp only: word_unat_eq_iff)
qed

lemma cu_le_word:
  "cu c \<le> w \<longleftrightarrow> of_char c \<le> unat w" "w \<le> cu c \<longleftrightarrow> unat w \<le> of_char c"
  by (simp_all add: word_le_nat_alt unat_cu)

lemmas parseInt_eval = parseInt_def StrWhiteSpaceChar_def digit_value_def digits_value_def
  unat_cu cu_le_word cu_eq_word

lemmas request_eval = request_def withRetry_def withRetry_loop.simps request_once_def
  try_block_def catch_block_def maskApiKey_def regexp_replace_g_def literal_pattern_def
  SyntaxCharacter_def non_retryable_def new_Error_def render_def js_times_def MAX_RETRIES_def
  INITIAL_DELAY_MS_def backoff_def decimal.simps digit_def new_world_def

section \<open>Claims about the resource operations\<close>

lemma decimal_MAX_CONTENT_SIZE: "decimal MAX_CONTENT_SIZE = lit ''51200''"
  by (simp add: MAX_CONTENT_SIZE_def decimal.simps digit_def)

lemma validateContentSize_accepts:
  "length c \<le> 51200 \<Longrightarrow> validateContentSize c = Inr ()"
  by (simp add: validateContentSize_def MAX_CONTENT_SIZE_def)

lemma validateContentSize_rejects:
  "51200 < length c \<Longrightarrow>
   validateContentSize c = Inl (new_Error (lit ''Content exceeds maximum size of 51200 bytes''))"
  by (simp add: validateContentSize_def decimal_MAX_CONTENT_SIZE) (simp add: MAX_CONTENT_SIZE_def)

lemma size_message_includes:
  "str_includes (lit ''Content exceeds maximum size of 51200 bytes'') (lit ''maximum size of 51200'')"
  by simp

text \<open>
  C7. Content of exactly 51200 code units passes the size guard, and each of the four guarded
  operations goes on to its request; content of 51201 code units or more makes each of them
  throw the size error, whose message names the maximum size, with the world unchanged: no
  call of \<open>fetch\<close> is made.
\<close>

theorem content_size_limit:
  "(length c = 51200 \<longrightarrow>
      validateContentSize c = Inr ()
      \<and> length (fetched w) < length (fetched (snd (storeMemory pf cfg c md w)))
      \<and> length (fetched w) < length (fetched (snd (updateMemory pf cfg ident c md w)))
      \<and> length (fetched w) < length (fetched (snd (searchMemories pf cfg c limit threshold w)))
      \<and> length (fetched w) < length (fetched (snd (createEntity pf cfg c ty md w))))
   \<and> (51201 \<le> length c \<longrightarrow>
      (\<exists>e. validateContentSize c = Inl e
         \<and> str_includes (message e) (lit ''maximum size of 51200'')
         \<and> storeMemory pf cfg c md w = (Inl e, w)
         \<and> updateMemory pf cfg ident c md w = (Inl e, w)
         \<and> searchMemories pf cfg c limit threshold w = (Inl e, w)
         \<and> createEntity pf cfg c ty md w = (Inl e, w)))"
proof (intro conjI impI)
  assume len: "length c = 51200"
  then show ok: "validateContentSize c = Inr ()"
    by (simp add: validateContentSize_accepts)
  show "length (fetched w) < length (fetched (snd (storeMemory pf cfg c md w)))"
    by (simp add: storeMemory_def ok request_fetched_grows)
  show "length (fetched w) < length (fetched (snd (updateMemory pf cfg ident c md w)))"
    by (simp add: updateMemory_def ok request_fetched_grows)
  show "length (fetched w) < length (fetched (snd (createEntity pf cfg c ty md w)))"
    by (simp add: createEntity_def ok request_fetched_grows)
  let ?req = "request pf cfg (lit ''POST'') (lit ''/v1/memories/memories/search'')
                (Some (SearchBody c limit threshold (agentId cfg))) w"
  have "snd (searchMemories pf cfg c limit threshold w) = snd ?req"
    by (cases ?req) (simp add: searchMemories_def ok split: sum.split)
  then show "length (fetched w) < length (fetched (snd (searchMemories pf cfg c limit threshold w)))"
    by (simp add: request_fetched_grows)
next
  assume "51201 \<le> length c"
  then have bad: "validateContentSize c
                  = Inl (new_Error (lit ''Content exceeds maximum size of 51200 bytes''))"
    by (simp add: validateContentSize_rejects)
  show "\<exists>e. validateContentSize c = Inl e
         \<and> str_includes (message e) (lit ''maximum size of 51200'')
         \<and> storeMemory pf cfg c md w = (Inl e, w)
         \<and> updateMemory pf cfg ident c md w = (Inl e, w)
         \<and> searchMemories pf cfg c limit threshold w = (Inl e, w)
         \<and> createEntity pf cfg c ty md w = (Inl e, w)"
  proof (intro exI conjI)
    show "validateContentSize c = Inl (new_Error (lit ''Content exceeds maximum size of 51200 bytes''))"
      by (rule bad)
    show "str_includes (message (new_Error (lit ''Content exceeds maximum size of 51200 bytes'')))
            (lit ''maximum size of 51200'')"
      using size_message_includes by (simp only: new_Error_def js_error.sel)
  qed (simp_all add: storeMemory_def updateMemory_def searchMemories_def createEntity_def bad)
qed

theorem content_size_limit_witness:
  "validateContentSize (replicate 51200 (cu CHR ''x'')) = Inr ()
   \<and> length (fetched new_world)
       < length (fetched (snd (storeMemory refusing test_config (replicate 51200 (cu CHR ''x''))
                                 None new_world)))
   \<and> (\<exists>e. str_includes (message e) (lit ''maximum size of 51200'')
          \<and> storeMemory refusing test_config (replicate 51201 (cu CHR ''x'')) None new_world
              = (Inl e, new_world)
          \<and> createEntity refusing test_config (replicate 51201 (cu CHR ''x'')) (lit ''person'')
               None new_world = (Inl e, new_world))"
  using content_size_limit [of "replicate 51200 (cu CHR ''x'')" new_world refusing test_config
      None "lit ''id''" 10 "1 / 2" "lit ''person''"]
    content_size_limit [of "replicate 51201 (cu CHR ''x'')" new_world refusing test_config
      None "lit ''id''" 10 "1 / 2" "lit ''person''"]
  by auto

text \<open>
  C8. \<open>healthCheck\<close> never throws: whatever the request does, it returns a value, in the world
  the request left. When the request failed (its retries exhausted or not), the status is
  \<open>unhealthy\<close> and the message contains \<open>failed\<close>; when it succeeded, the status is \<open>healthy\<close>.
\<close>

theorem healthCheck_never_raises:
  "\<exists>h. healthCheck pf cfg w
          = (Inr h, snd (request pf cfg (lit ''GET'') (lit ''/v1/health'') None w))
      \<and> (isl (fst (request pf cfg (lit ''GET'') (lit ''/v1/health'') None w)) \<longrightarrow>
           health_status h = lit ''unhealthy''
           \<and> str_includes (health_message h) (lit ''failed''))
      \<and> (\<not> isl (fst (request pf cfg (lit ''GET'') (lit ''/v1/health'') None w)) \<longrightarrow>
           health_status h = lit ''healthy'')"
proof (cases "request pf cfg (lit ''GET'') (lit ''/v1/health'') None w")
  case (Pair r w')
  show ?thesis
  proof (cases r)
    case (Inl e)
    have "str_includes (lit ''API connection '' @ lit ''failed'' @ (lit '': '' @ message e))
            (lit ''failed'')"
      by (rule str_includes_appendI)
    then have "str_includes (lit ''API connection failed: '' @ message e) (lit ''failed'')"
      by simp
    with Pair Inl show ?thesis by (simp add: healthCheck_def)
  next
    case (Inr v)
    with Pair show ?thesis by (simp add: healthCheck_def)
  qed
qed

theorem healthCheck_never_raises_witness:
  "\<exists>h. healthCheck refusing test_config new_world
          = (Inr h,
             \<lparr>fetched = [health_call, health_call, health_call, health_call],
              pauses = [Backoff 1000, Backoff 2000, Backoff 4000]\<rparr>)
      \<and> health_status h = lit ''unhealthy''
      \<and> str_includes (health_message h) (lit ''failed'')"
proof -
  have "request refusing test_config (lit ''GET'') (lit ''/v1/health'') None new_world
          = (Inl (JsError (lit ''Error'') (lit ''Connection refused'')),
             \<lparr>fetched = [health_call, health_call, health_call, health_call],
              pauses = [Backoff 1000, Backoff 2000, Backoff 4000]\<rparr>)"
    by (simp add: request_eval test_config_def refusing_def health_call_def)
  then show ?thesis
    using healthCheck_never_raises [of refusing test_config new_world] by simp
qed

section \<open>The size guard and UTF-8\<close>

lemma utf8_length_replicate:
  "\<not> high_surrogate c \<Longrightarrow> utf8_length (replicate n c) = n * unit_bytes c"
proof (induction n)
  case 0
  then show ?case by simp
next
  case (Suc n)
  then show ?case by (cases n) simp_all
qed

text \<open>
  C9. The size guard counts UTF-16 code units: every string of at most 51200 code units is
  accepted, whatever its size in UTF-8; the string of 51200 times U+4F60 has 153600 bytes in
  UTF-8 and is accepted; and the message of the size error states the limit in \<open>bytes\<close>.
\<close>

theorem size_guard_counts_code_units:
  "(length s \<le> 51200 \<longrightarrow> validateContentSize s = Inr ())
   \<and> length (replicate 51200 (0x4F60 :: code_unit)) = 51200
   \<and> utf8_length (replicate 51200 0x4F60) = 153600
   \<and> validateContentSize (replicate 51200 0x4F60) = Inr ()
   \<and> (validateContentSize s = Inl e \<longrightarrow> str_includes (message e) (lit ''bytes''))"
proof (intro conjI impI)
  show "utf8_length (replicate 51200 0x4F60) = 153600"
    by (simp add: utf8_length_replicate high_surrogate_def unit_bytes_def)
  assume "validateContentSize s = Inl e"
  then have "message e = lit ''Content exceeds maximum size of 51200 bytes''"
    by (auto simp: validateContentSize_def decimal_MAX_CONTENT_SIZE new_Error_def
        split: if_splits)
  then show "str_includes (message e) (lit ''bytes'')"
    by simp
qed (simp_all add: validateContentSize_accepts)

theorem size_guard_counts_code_units_witness:
  "validateContentSize (replicate 51200 (0x4F60 :: code_unit)) = Inr ()
   \<and> utf8_length (replicate 51200 0x4F60) = 153600
   \<and> validateContentSize (replicate 51201 (cu CHR ''x''))
       = Inl (new_Error (lit ''Content exceeds maximum size of 51200 bytes''))
   \<and> str_includes (message (new_Error (lit ''Content exceeds maximum size of 51200 bytes'')))
         (lit ''bytes'')"
  using size_guard_counts_code_units [of "replicate 51200 0x4F60"]
    size_guard_counts_code_units [of "replicate 51201 (cu CHR ''x'')"
      "new_Error (lit ''Content exceeds maximum size of 51200 bytes'')"]
  by (simp add: validateContentSize_rejects)

section \<open>HTML escaping\<close>

lemma replace_all_char:
  "replace_all [c] r s = concat (map (\<lambda>x. if x = c then r else [x]) s)"
  by (induction s) auto

lemma concat_map_concat:
  "concat (map f (concat (map g s))) = concat (map (\<lambda>x. concat (map f (g x))) s)"
  by (induction s) simp_all

lemma sanitizeHtml_entities: "sanitizeHtml s = concat (map html_entity s)"
proof -
  have "sanitizeHtml s =
          concat (map (\<lambda>x. if x = cu CHR ''/'' then lit ''&#x2F;'' else [x])
          (concat (map (\<lambda>x. if x = cu (CHR 0x27) then lit ''&#x27;'' else [x])
          (concat (map (\<lambda>x. if x = cu (CHR 0x22) then lit ''&quot;'' else [x])
          (concat (map (\<lambda>x. if x = cu CHR ''>'' then lit ''&gt;'' else [x])
          (concat (map (\<lambda>x. if x = cu CHR ''<'' then lit ''&lt;'' else [x])
          (concat (map (\<lambda>x. if x = cu CHR ''&'' then lit ''&amp;'' else [x]) s)))))))))))"
    unfolding sanitizeHtml_def lit_simps by (simp only: replace_all_char)
  also have "\<dots> = concat (map html_entity s)"
    unfolding concat_map_concat
    by (rule arg_cong [where f = concat], rule map_cong) (simp_all add: html_entity_def)
  finally show ?thesis .
qed

lemma html_entity_raw: "set (html_entity c) \<inter> set raw_delimiters = {}"
  by (simp add: html_entity_def raw_delimiters_def)

lemma html_entity_length: "length (html_entity c) \<le> 6"
  by (simp add: html_entity_def)

lemma sanitizeHtml_raw: "set (sanitizeHtml s) \<inter> set raw_delimiters = {}"
  using html_entity_raw by (auto simp: sanitizeHtml_entities)

lemma sanitizeHtml_length: "length (sanitizeHtml s) \<le> 6 * length s"
proof (induction s)
  case Nil
  then show ?case by (simp add: sanitizeHtml_entities)
next
  case (Cons c s)
  then show ?case using html_entity_length [of c] by (simp add: sanitizeHtml_entities)
qed

lemma sanitizeHtml_angles: "length (sanitizeHtml (replicate n (cu CHR ''<''))) = 4 * n"
  by (induction n) (simp_all add: sanitizeHtml_entities html_entity_def)

lemma entity_create_fetched:
  assumes "entitySchema_parse args = Some (nm, ty, md)"
  shows "\<exists>n. 1 \<le> n \<and> n \<le> 4 \<and>
           fetched (snd (entity_create pf cfg args w)) = fetched w @ replicate n
             \<lparr>url = apiUrl cfg @ lit ''/v1/entities'', http_method = lit ''POST'',
              authorization = lit ''Bearer '' @ apiKey cfg,
              body = Some (CreateEntityBody (sanitizeHtml nm) ty md)\<rparr>"
proof -
  let ?req = "request pf cfg (lit ''POST'') (lit ''/v1/entities'')
                (Some (CreateEntityBody (sanitizeHtml nm) ty md)) w"
  from assms have "length nm \<le> 200"
    by (auto simp: entitySchema_parse_def split: option.splits if_splits)
  with sanitizeHtml_length [of nm] have "length (sanitizeHtml nm) \<le> 51200" by simp
  then have "createEntity pf cfg (sanitizeHtml nm) ty md w = ?req"
    by (simp add: createEntity_def validateContentSize_accepts)
  then have "snd (entity_create pf cfg args w) = snd ?req"
    by (cases ?req) (simp add: entity_create_def assms split: sum.split)
  moreover obtain r w' where run: "?req = (r, w')" by (cases ?req)
  ultimately show ?thesis using request_fetched [OF run] by simp
qed

section \<open>Claims about the tool layer\<close>

text \<open>
  C10. \<open>sanitizeHtml\<close> replaces each of \<open>&\<close>, \<open><\<close>, \<open>>\<close>, the double quote, the single quote and
  \<open>/\<close> by its HTML entity and keeps every other character: its output is the input with each
  character mapped by \<open>html_entity\<close>, so it has none of the raw characters \<open><\<close>, \<open>>\<close>, the two
  quotes and \<open>/\<close>. When the arguments of \<open>entity_create\<close> pass the schema, every call of
  \<open>fetch\<close> the tool makes (between one and four) carries the escaped name; when they do not,
  nothing is sent. The escaped name may be longer than the 200 code units the schema allows:
  200 times \<open><\<close> passes the schema and is sent as 800 code units.
\<close>

theorem entity_name_escaped:
  "sanitizeHtml s = concat (map html_entity s)
   \<and> set (sanitizeHtml s) \<inter> set raw_delimiters = {}
   \<and> (entitySchema_parse args = Some (nm, ty, md) \<longrightarrow>
        (\<exists>n. 1 \<le> n \<and> n \<le> 4 \<and>
           fetched (snd (entity_create pf cfg args w)) = fetched w @ replicate n
             \<lparr>url = apiUrl cfg @ lit ''/v1/entities'', http_method = lit ''POST'',
              authorization = lit ''Bearer '' @ apiKey cfg,
              body = Some (CreateEntityBody (concat (map html_entity nm)) ty md)\<rparr>))
   \<and> (entitySchema_parse args = None \<longrightarrow>
        entity_create pf cfg args w = (ToolError (lit ''Validation error''), w))
   \<and> entitySchema_parse angle_args = Some (replicate 200 (cu CHR ''<''), lit ''person'', None)
   \<and> sanitizeHtml (replicate 200 (cu CHR ''<'')) = concat (replicate 200 (lit ''&lt;''))
   \<and> length (sanitizeHtml (replicate 200 (cu CHR ''<''))) = 800"
proof (intro conjI impI)
  show "sanitizeHtml s = concat (map html_entity s)"
    by (rule sanitizeHtml_entities)
  show "set (sanitizeHtml s) \<inter> set raw_delimiters = {}"
    by (rule sanitizeHtml_raw)
  show "entitySchema_parse angle_args = Some (replicate 200 (cu CHR ''<''), lit ''person'', None)"
    by (simp add: entitySchema_parse_def angle_args_def entity_types_def)
  show "sanitizeHtml (replicate 200 (cu CHR ''<'')) = concat (replicate 200 (lit ''&lt;''))"
    by (simp add: sanitizeHtml_entities html_entity_def map_replicate)
  show "length (sanitizeHtml (replicate 200 (cu CHR ''<''))) = 800"
    by (simp add: sanitizeHtml_angles)
next
  assume "entitySchema_parse args = Some (nm, ty, md)"
  then have "\<exists>n. 1 \<le> n \<and> n \<le> 4 \<and>
           fetched (snd (entity_create pf cfg args w)) = fetched w @ replicate n
             \<lparr>url = apiUrl cfg @ lit ''/v1/entities'', http_method = lit ''POST'',
              authorization = lit ''Bearer '' @ apiKey cfg,
              body = Some (CreateEntityBody (sanitizeHtml nm) ty md)\<rparr>"
    by (rule entity_create_fetched)
  then show "\<exists>n. 1 \<le> n \<and> n \<le> 4 \<and>
           fetched (snd (entity_create pf cfg args w)) = fetched w @ replicate n
             \<lparr>url = apiUrl cfg @ lit ''/v1/entities'', http_method = lit ''POST'',
              authorization = lit ''Bearer '' @ apiKey cfg,
              body = Some (CreateEntityBody (concat (map html_entity nm)) ty md)\<rparr>"
    by (simp only: sanitizeHtml_entities)
next
  assume "entitySchema_parse args = None"
  then show "entity_create pf cfg args w = (ToolError (lit ''Validation error''), w)"
    by (simp add: entity_create_def)
qed

theorem entity_name_escaped_witness:
  "sanitizeHtml (lit ''<b>Tom & Co</b>'') = lit ''&lt;b&gt;Tom &amp; Co&lt;&#x2F;b&gt;''
   \<and> sanitizeHtml [cu (CHR 0x22), cu CHR ''x'', cu (CHR 0x27)] = lit ''&quot;x&#x27;''
   \<and> (\<exists>n. 1 \<le> n \<and> n \<le> 4 \<and>
        fetched (snd (entity_create refusing test_config tag_args new_world))
          = replicate n
              \<lparr>url = lit ''https://api.memoryrelay.net/v1/entities'', http_method = lit ''POST'',
               authorization = lit ''Bearer mem_test_1234567890abcdef'',
               body = Some (CreateEntityBody (lit ''&lt;b&gt;Tom &amp; Co&lt;&#x2F;b&gt;'')
                              (lit ''person'') None)\<rparr>)
   \<and> (\<exists>n. 1 \<le> n \<and> n \<le> 4 \<and>
        fetched (snd (entity_create refusing test_config angle_args new_world))
          = replicate n
              \<lparr>url = lit ''https://api.memoryrelay.net/v1/entities'', http_method = lit ''POST'',
               authorization = lit ''Bearer mem_test_1234567890abcdef'',
               body = Some (CreateEntityBody (concat (replicate 200 (lit ''&lt;'')))
                              (lit ''person'') None)\<rparr>)
   \<and> set (sanitizeHtml (replicate 200 (cu CHR ''<''))) \<inter> set raw_delimiters = {}
   \<and> length (sanitizeHtml (replicate 200 (cu CHR ''<''))) = 800
   \<and> entity_create refusing test_config
        \<lparr>arg_name = Some [], arg_type = Some (lit ''person''), arg_metadata = None\<rparr> new_world
       = (ToolError (lit ''Validation error''), new_world)"
proof -
  note inst = entity_name_escaped [where pf = refusing and cfg = test_config and w = new_world
      and ty = "lit ''person''" and md = None]
  have tag: "entitySchema_parse tag_args = Some (lit ''<b>Tom & Co</b>'', lit ''person'', None)"
    by (simp add: entitySchema_parse_def tag_args_def entity_types_def)
  have angle: "entitySchema_parse angle_args
                 = Some (replicate 200 (cu CHR ''<''), lit ''person'', None)"
    by (simp add: entitySchema_parse_def angle_args_def entity_types_def)
  have empty: "entitySchema_parse
                 \<lparr>arg_name = Some [], arg_type = Some (lit ''person''), arg_metadata = None\<rparr> = None"
    by (simp add: entitySchema_parse_def)
  have angles: "map html_entity (replicate 200 (cu CHR ''<'')) = replicate 200 (lit ''&lt;'')"
    by (simp add: html_entity_def)
  have t1: "sanitizeHtml (lit ''<b>Tom & Co</b>'') = lit ''&lt;b&gt;Tom &amp; Co&lt;&#x2F;b&gt;''"
    using inst [of "lit ''<b>Tom & Co</b>''" tag_args "lit ''<b>Tom & Co</b>''"]
    by (simp add: html_entity_def)
  have t2: "sanitizeHtml [cu (CHR 0x22), cu CHR ''x'', cu (CHR 0x27)] = lit ''&quot;x&#x27;''"
    using inst [of "[cu (CHR 0x22), cu CHR ''x'', cu (CHR 0x27)]" tag_args "lit ''<b>Tom & Co</b>''"]
    by (simp add: html_entity_def)
  have t3: "\<exists>n. 1 \<le> n \<and> n \<le> 4 \<and>
        fetched (snd (entity_create refusing test_config tag_args new_world))
          = replicate n
              \<lparr>url = lit ''https://api.memoryrelay.net/v1/entities'', http_method = lit ''POST'',
               authorization = lit ''Bearer mem_test_1234567890abcdef'',
               body = Some (CreateEntityBody (lit ''&lt;b&gt;Tom &amp; Co&lt;&#x2F;b&gt;'')
                              (lit ''person'') None)\<rparr>"
  proof -
    have "\<exists>n. 1 \<le> n \<and> n \<le> 4 \<and>
           fetched (snd (entity_create refusing test_config tag_args new_world))
             = fetched new_world @ replicate n
             \<lparr>url = apiUrl test_config @ lit ''/v1/entities'', http_method = lit ''POST'',
              authorization = lit ''Bearer '' @ apiKey test_config,
              body = Some (CreateEntityBody (concat (map html_entity (lit ''<b>Tom & Co</b>'')))
                             (lit ''person'') None)\<rparr>"
      using inst [of "[]" tag_args "lit ''<b>Tom & Co</b>''"] tag by blast
    then show ?thesis
      by (simp add: html_entity_def test_config_def new_world_def)
  qed
  have t4: "\<exists>n. 1 \<le> n \<and> n \<le> 4 \<and>
        fetched (snd (entity_create refusing test_config angle_args new_world))
          = replicate n
              \<lparr>url = lit ''https://api.memoryrelay.net/v1/entities'', http_method = lit ''POST'',
               authorization = lit ''Bearer mem_test_1234567890abcdef'',
               body = Some (CreateEntityBody (concat (replicate 200 (lit ''&lt;'')))
                              (lit ''person'') None)\<rparr>"
  proof -
    have "\<exists>n. 1 \<le> n \<and> n \<le> 4 \<and>
           fetched (snd (entity_create refusing test_config angle_args new_world))
             = fetched new_world @ replicate n
             \<lparr>url = apiUrl test_config @ lit ''/v1/entities'', http_method = lit ''POST'',
              authorization = lit ''Bearer '' @ apiKey test_config,
              body = Some (CreateEntityBody (concat (map html_entity (replicate 200 (cu CHR ''<''))))
                             (lit ''person'') None)\<rparr>"
      using inst [of "[]" angle_args "replicate 200 (cu CHR ''<'')"] angle by blast
    then show ?thesis
      by (simp only: angles) (simp add: test_config_def new_world_def)
  qed
  have t5: "set (sanitizeHtml (replicate 200 (cu CHR ''<''))) \<inter> set raw_delimiters = {}"
    "length (sanitizeHtml (replicate 200 (cu CHR ''<''))) = 800"
    using inst [of "replicate 200 (cu CHR ''<'')" angle_args "replicate 200 (cu CHR ''<'')"]
    by blast+
  have t6: "entity_create refusing test_config
        \<lparr>arg_name = Some [], arg_type = Some (lit ''person''), arg_metadata = None\<rparr> new_world
       = (ToolError (lit ''Validation error''), new_world)"
    using inst [of "[]"
        "\<lparr>arg_name = Some [], arg_type = Some (lit ''person''), arg_metadata = None\<rparr>" "[]"]
      empty by blast
  from t1 t2 t3 t4 t5 t6 show ?thesis by (intro conjI)
qed

section \<open>The errors a request raises\<close>

lemma withRetry_loop_error:
  assumes fn: "\<And>s e s'. fn s = (Inl e, s') \<Longrightarrow> P e"
  shows "retries - attempt = k \<Longrightarrow> attempt \<le> retries \<Longrightarrow>
         withRetry_loop sleep fn retries attempt le s = (Inl e, s') \<Longrightarrow> P e"
proof (induction k arbitrary: attempt le s)
  case 0
  then have last: "attempt = retries" by simp
  obtain r1 s1 where f: "fn s = (r1, s1)" by (cases "fn s")
  from "0.prems"(3) f last have "r1 = Inl e"
    by (subst (asm) withRetry_loop.simps) (auto split: sum.splits if_splits)
  with f fn show ?case by blast
next
  case (Suc k)
  then have lt: "attempt < retries" by simp
  obtain r1 s1 where f: "fn s = (r1, s1)" by (cases "fn s")
  show ?case
  proof (cases "\<exists>e1. r1 = Inl e1 \<and> \<not> non_retryable (message e1)")
    case True
    then obtain e1 where e1: "r1 = Inl e1" "\<not> non_retryable (message e1)" by blast
    let ?s2 = "sleep (INITIAL_DELAY_MS * 2 ^ attempt) s1"
    from Suc.prems(3) f e1 lt
    have rec: "withRetry_loop sleep fn retries (attempt + 1) (Some e1) ?s2 = (Inl e, s')"
      by (subst (asm) withRetry_loop.simps) simp
    have "retries - (attempt + 1) = k" using Suc.prems(1) by simp
    moreover have "attempt + 1 \<le> retries" using lt by simp
    ultimately show ?thesis using rec by (rule Suc.IH)
  next
    case False
    from Suc.prems(3) f False lt have "r1 = Inl e"
      by (subst (asm) withRetry_loop.simps) (auto split: sum.splits if_splits)
    with f fn show ?thesis by blast
  qed
qed

lemma request_once_error:
  "request_once pf cfg call w = (Inl e, w') \<Longrightarrow> \<exists>e0. e = catch_block pf cfg e0"
  by (cases "try_block pf cfg call w") (auto simp: request_once_def split: sum.splits)

lemma request_error:
  assumes "request pf cfg method path b w = (Inl e, w')"
  shows "\<exists>e0. e = catch_block pf cfg e0"
proof -
  let ?call = "\<lparr>url = apiUrl cfg @ path, http_method = method,
                 authorization = lit ''Bearer '' @ apiKey cfg, body = b\<rparr>"
  have "withRetry_loop backoff (request_once pf cfg ?call) MAX_RETRIES 0 None w = (Inl e, w')"
    using assms by (simp add: request_def withRetry_def)
  then show ?thesis
    using withRetry_loop_error [of "request_once pf cfg ?call" "\<lambda>e. \<exists>e0. e = catch_block pf cfg e0"
        MAX_RETRIES 0 MAX_RETRIES backoff None w e w', OF request_once_error]
    by simp
qed

lemma catch_block_redacted:
  assumes "8 < length (apiKey cfg)" "literal_pattern (apiKey cfg)"
    and "\<not> str_includes (lit ''Request timeout after '' @ decimal (timeout cfg) @ lit ''ms'')
            (apiKey cfg)"
  shows "\<not> str_includes (message (catch_block pf cfg e0)) (apiKey cfg)"
proof (cases "name e0 = lit ''AbortError''")
  case True
  with assms(3) show ?thesis by (simp add: catch_block_def new_Error_def)
next
  case False
  obtain t where "maskApiKey (regexp pf) (message e0) (apiKey cfg) = Inr t"
    "\<not> str_includes t (apiKey cfg)"
    using mask_removes_key [OF assms(1,2)] by blast
  with False show ?thesis by (simp add: catch_block_def)
qed

section \<open>Claims about the request executor\<close>

text \<open>
  C3, as amended. When the configured API key has more than 8 code units and no
  regular-expression syntax character, and does not occur in the text of the client's own
  timeout message, the message of every error that \<open>request\<close> raises (timeout, network error
  or non-success status) has no occurrence of the key.
\<close>

theorem request_error_redacted:
  assumes "8 < length (apiKey cfg)" "literal_pattern (apiKey cfg)"
    and "\<not> str_includes (lit ''Request timeout after '' @ decimal (timeout cfg) @ lit ''ms'')
            (apiKey cfg)"
    and "request pf cfg method path b w = (Inl e, w')"
  shows "\<not> str_includes (message e) (apiKey cfg)"
proof -
  obtain e0 where "e = catch_block pf cfg e0"
    using request_error [OF assms(4)] by blast
  then show ?thesis
    using catch_block_redacted [OF assms(1-3)] by simp
qed

lemma test_key_literal: "literal_pattern (lit ''mem_test_1234567890abcdef'')"
  by (simp add: literal_pattern_def SyntaxCharacter_def)

theorem request_error_redacted_witness:
  "request (echoing (lit ''mem_test_1234567890abcdef'')) test_config (lit ''POST'')
       (lit ''/v1/memories/memories'')
       (Some (StoreMemoryBody (lit ''test content'') None (lit ''test-agent''))) new_world
     = (Inl (new_Error (lit ''API request failed: 401 Unauthorized - Key: mem_test*** failed'')),
        \<lparr>fetched = [store_call], pauses = []\<rparr>)
   \<and> \<not> str_includes
         (message (new_Error (lit ''API request failed: 401 Unauthorized - Key: mem_test*** failed'')))
         (apiKey test_config)"
proof -
  have run: "request (echoing (lit ''mem_test_1234567890abcdef'')) test_config (lit ''POST'')
       (lit ''/v1/memories/memories'')
       (Some (StoreMemoryBody (lit ''test content'') None (lit ''test-agent''))) new_world
     = (Inl (new_Error (lit ''API request failed: 401 Unauthorized - Key: mem_test*** failed'')),
        \<lparr>fetched = [store_call], pauses = []\<rparr>)"
    by (simp add: request_eval echoing_def test_config_def store_call_def)
  have len: "8 < length (apiKey test_config)"
    by (simp add: test_config_def)
  have literal: "literal_pattern (apiKey test_config)"
    using test_key_literal by (simp add: test_config_def)
  have own: "\<not> str_includes (lit ''Request timeout after '' @ decimal (timeout test_config) @ lit ''ms'')
               (apiKey test_config)"
    by (simp add: test_config_def decimal.simps digit_def)
  from request_error_redacted [OF len literal own run] run show ?thesis by simp
qed

text \<open>
  C3 as stated fails by design in two ways. A key of at most 8 code units is kept whole by the
  mask: the server echoes the key \<open>secret\<close> and the raised message still contains it. And the
  timeout message is raised unmasked: a key that is part of its text occurs in it.
\<close>

theorem request_error_counterexample:
  "request (echoing (lit ''secret'')) (test_config\<lparr>apiKey := lit ''secret''\<rparr>) (lit ''POST'')
       (lit ''/v1/memories/memories'')
       (Some (StoreMemoryBody (lit ''test content'') None (lit ''test-agent''))) new_world
     = (Inl (new_Error (lit ''API request failed: 401 Unauthorized - Key: secret****** failed'')),
        \<lparr>fetched = [store_call\<lparr>authorization := lit ''Bearer secret''\<rparr>], pauses = []\<rparr>)
   \<and> str_includes (lit ''API request failed: 401 Unauthorized - Key: secret****** failed'')
        (lit ''secret'')
   \<and> fst (request never_answering (test_config\<lparr>apiKey := lit ''Request timeout''\<rparr>)
            (lit ''POST'') (lit ''/v1/memories/memories'')
            (Some (StoreMemoryBody (lit ''test content'') None (lit ''test-agent''))) new_world)
     = Inl (new_Error (lit ''Request timeout after 5000ms''))
   \<and> str_includes (lit ''Request timeout after 5000ms'') (lit ''Request timeout'')"
  by (simp add: request_eval echoing_def never_answering_def test_config_def store_call_def)

section \<open>Where the code departs from the claims\<close>

text \<open>
  C1. \<open>withRetry\<close> does not read a status code: it looks for the digits \<open>400\<close>, \<open>401\<close>, \<open>403\<close>
  and \<open>404\<close> anywhere in the message. With a timeout of 4000 ms the timeout error is
  \<open>Request timeout after 4000ms\<close>, which contains \<open>400\<close>: \<open>storeMemory\<close> raises it after one
  call of \<open>fetch\<close>, with no wait and no second attempt. With 5000 ms the same failure is
  retried to the end of the budget. A 500 whose body mentions \<open>404\<close> is not retried either.
\<close>

theorem timeout_4000_not_retried:
  "storeMemory never_answering (test_config\<lparr>timeout := 4000\<rparr>) (lit ''test content'') None
       new_world
     = (Inl (new_Error (lit ''Request timeout after 4000ms'')),
        \<lparr>fetched = [store_call], pauses = []\<rparr>)
   \<and> storeMemory never_answering test_config (lit ''test content'') None new_world
     = (Inl (new_Error (lit ''Request timeout after 5000ms'')),
        \<lparr>fetched = [store_call, store_call, store_call, store_call],
         pauses = [Backoff 1000, Backoff 2000, Backoff 4000]\<rparr>)
   \<and> storeMemory (failing_500 (lit ''upstream returned 404'')) test_config (lit ''test content'')
       None new_world
     = (Inl (new_Error (lit ''API request failed: 500 Internal Server Error - upstream returned 404'')),
        \<lparr>fetched = [store_call], pauses = []\<rparr>)"
  by (simp add: request_eval storeMemory_def validateContentSize_def MAX_CONTENT_SIZE_def
      never_answering_def failing_500_def test_config_def store_call_def)

text \<open>
  C4. A 429 with \<open>Retry-After: 4\<close> is waited for (4000 ms) and then raised as
  \<open>Rate limited: 429 - Retry after 4000ms\<close>, which contains \<open>400\<close>: \<open>withRetry\<close> rethrows it at
  once and the second call is never made. With \<open>Retry-After: 1\<close> the request is re-attempted
  and succeeds. A header that is present but not a number gives a wait of \<open>NaN\<close>, not of
  5000 ms.
\<close>

theorem rate_limit_4_not_retried:
  "storeMemory (rate_limited (Some (lit ''4''))) test_config (lit ''test content'') None new_world
     = (Inl (new_Error (lit ''Rate limited: 429 - Retry after 4000ms'')),
        \<lparr>fetched = [store_call], pauses = [RateLimitWait (Num 4000)]\<rparr>)
   \<and> storeMemory (rate_limited (Some (lit ''1''))) test_config (lit ''test content'') None new_world
     = (Inr (),
        \<lparr>fetched = [store_call, store_call],
         pauses = [RateLimitWait (Num 1000), Backoff 1000]\<rparr>)
   \<and> storeMemory (rate_limited None) test_config (lit ''test content'') None new_world
     = (Inr (),
        \<lparr>fetched = [store_call, store_call],
         pauses = [RateLimitWait (Num 5000), Backoff 1000]\<rparr>)
   \<and> storeMemory (rate_limited (Some (lit ''Wed, 21 Oct 2015 07:28:00 GMT''))) test_config
       (lit ''test content'') None new_world
     = (Inr (),
        \<lparr>fetched = [store_call, store_call],
         pauses = [RateLimitWait NaN, Backoff 1000]\<rparr>)"
  by (simp add: request_eval parseInt_eval storeMemory_def validateContentSize_def
      MAX_CONTENT_SIZE_def rate_limited_def test_config_def store_call_def)

text \<open>
  C6. \<open>storeMemory\<close> posts to the base URL followed by \<open>/v1/memories/memories\<close>, not
  \<open>/v1/memories\<close>, and \<open>healthCheck\<close> gets the base URL followed by \<open>/v1/health\<close>, not \<open>/health\<close>.
\<close>

theorem storeMemory_healthCheck_urls:
  "storeMemory accepting test_config (lit ''test content'') None new_world
     = (Inr (), \<lparr>fetched = [store_call], pauses = []\<rparr>)
   \<and> http_method store_call = lit ''POST''
   \<and> url store_call = apiUrl test_config @ lit ''/v1/memories/memories''
   \<and> url store_call \<noteq> apiUrl test_config @ lit ''/v1/memories''
   \<and> snd (healthCheck accepting test_config new_world)
     = \<lparr>fetched = [health_call], pauses = []\<rparr>
   \<and> http_method health_call = lit ''GET''
   \<and> url health_call = apiUrl test_config @ lit ''/v1/health''
   \<and> url health_call \<noteq> apiUrl test_config @ lit ''/health''"
  by (simp add: request_eval storeMemory_def healthCheck_def validateContentSize_def
      MAX_CONTENT_SIZE_def accepting_def test_config_def store_call_def health_call_def)

end
